theory Spec2Isabelle
  imports Main "HOL-Library.Word"
begin

unbundle bit_operations_syntax

section \<open>The RTSP source of rtsp-simple-server (internal/core/rtsp\_source.go)\<close>

text \<open>
  The file under verification is one Go source, \<^verbatim>\<open>rtsp_source.go\<close>. It has three parts:
  \<^item> the constructor \<^verbatim>\<open>newRTSPSource\<close> and \<^verbatim>\<open>Close\<close>, which touch the shared counter
    \<^verbatim>\<open>stats.CountSourcesRTSP\<close>, the wait group and the context of the source;
  \<^item> the supervisor \<^verbatim>\<open>run\<close> and one attempt \<^verbatim>\<open>runInner\<close>, which race goroutines
    against \<^verbatim>\<open>ctx.Done()\<close>;
  \<^item> the closure \<^verbatim>\<open>VerifyConnection\<close> that pins the certificate of the server.

  Strings are Go strings, that is byte sequences: \<^typ>\<open>string\<close>. A Go \<^verbatim>\<open>error\<close> is
  represented by its message.
\<close>

type_synonym byte = "8 word"
type_synonym uint32 = "32 word"
type_synonym int64 = "64 word"
type_synonym err = string

subsection \<open>Library functions used by the trust check\<close>

text \<open>
  \<^verbatim>\<open>crypto/sha256\<close>: \<^verbatim>\<open>h := sha256.New(); h.Write(p); h.Sum(nil)\<close> is the SHA-256 digest
  of \<^verbatim>\<open>p\<close>. The digest is written out (FIPS 180-4, as \<^verbatim>\<open>sha256block.go\<close> and
  \<^verbatim>\<open>checkSum\<close> compute it), so that the check can be evaluated on concrete certificates.
\<close>

definition rotr :: "nat \<Rightarrow> uint32 \<Rightarrow> uint32" where
  "rotr n x = drop_bit n x OR push_bit (32 - n) x"

definition K256 :: "uint32 list" where
  "K256 =
     [0x428a2f98, 0x71374491, 0xb5c0fbcf, 0xe9b5dba5] @
     [0x3956c25b, 0x59f111f1, 0x923f82a4, 0xab1c5ed5] @
     [0xd807aa98, 0x12835b01, 0x243185be, 0x550c7dc3] @
     [0x72be5d74, 0x80deb1fe, 0x9bdc06a7, 0xc19bf174] @
     [0xe49b69c1, 0xefbe4786, 0x0fc19dc6, 0x240ca1cc] @
     [0x2de92c6f, 0x4a7484aa, 0x5cb0a9dc, 0x76f988da] @
     [0x983e5152, 0xa831c66d, 0xb00327c8, 0xbf597fc7] @
     [0xc6e00bf3, 0xd5a79147, 0x06ca6351, 0x14292967] @
     [0x27b70a85, 0x2e1b2138, 0x4d2c6dfc, 0x53380d13] @
     [0x650a7354, 0x766a0abb, 0x81c2c92e, 0x92722c85] @
     [0xa2bfe8a1, 0xa81a664b, 0xc24b8b70, 0xc76c51a3] @
     [0xd192e819, 0xd6990624, 0xf40e3585, 0x106aa070] @
     [0x19a4c116, 0x1e376c08, 0x2748774c, 0x34b0bcb5] @
     [0x391c0cb3, 0x4ed8aa4a, 0x5b9cca4f, 0x682e6ff3] @
     [0x748f82ee, 0x78a5636f, 0x84c87814, 0x8cc70208] @
     [0x90befffa, 0xa4506ceb, 0xbef9a3f7, 0xc67178f2]"

definition init256 :: "uint32 list" where
  "init256 = [0x6a09e667, 0xbb67ae85, 0x3c6ef372, 0xa54ff53a,
              0x510e527f, 0x9b05688c, 0x1f83d9ab, 0x5be0cd19]"

text \<open>Four bytes make one big-endian word; a word gives back four bytes.\<close>

fun be_words :: "byte list \<Rightarrow> uint32 list" where
  "be_words (a # b # c # d # rest) =
     (push_bit 24 (ucast a) OR push_bit 16 (ucast b) OR push_bit 8 (ucast c) OR ucast d)
       # be_words rest"
| "be_words _ = []"

definition be_bytes :: "uint32 \<Rightarrow> byte list" where
  "be_bytes w = [ucast (drop_bit 24 w), ucast (drop_bit 16 w), ucast (drop_bit 8 w), ucast w]"

text \<open>
  The message schedule \<^verbatim>\<open>w[i] = sigma1(w[i-2]) + w[i-7] + sigma0(w[i-15]) + w[i-16]\<close>;
  the list holds the words computed so far, the latest first.
\<close>

fun schedule :: "nat \<Rightarrow> uint32 list \<Rightarrow> uint32 list" where
  "schedule 0 ws = ws"
| "schedule (Suc n) ws =
     (let v1 = ws ! 1; v2 = ws ! 14;
          t1 = rotr 17 v1 XOR rotr 19 v1 XOR drop_bit 10 v1;
          t2 = rotr 7 v2 XOR rotr 18 v2 XOR drop_bit 3 v2
      in schedule n ((t1 + ws ! 6 + t2 + ws ! 15) # ws))"

fun round256 :: "uint32 list \<Rightarrow> uint32 \<times> uint32 \<Rightarrow> uint32 list" where
  "round256 [a, b, c, d, e, f, g, h] (k, w) =
     (let t1 = h + (rotr 6 e XOR rotr 11 e XOR rotr 25 e) + ((e AND f) XOR (NOT e AND g)) + k + w;
          t2 = (rotr 2 a XOR rotr 13 a XOR rotr 22 a) + ((a AND b) XOR (a AND c) XOR (b AND c))
      in [t1 + t2, a, b, c, d + t1, e, f, g])"
| "round256 st _ = st"

definition block256 :: "uint32 list \<Rightarrow> byte list \<Rightarrow> uint32 list" where
  "block256 hs p =
     (let w = rev (schedule 48 (rev (be_words p)))
      in map2 (+) hs (foldl round256 hs (zip K256 w)))"

fun blocks256 :: "nat \<Rightarrow> uint32 list \<Rightarrow> byte list \<Rightarrow> uint32 list" where
  "blocks256 0 hs p = hs"
| "blocks256 (Suc n) hs p = blocks256 n (block256 hs (take 64 p)) (drop 64 p)"

text \<open>
  \<^verbatim>\<open>checkSum\<close>: one byte 0x80, zeros up to 56 modulo 64, then the length in bits as 8
  big-endian bytes.
\<close>

definition pad256 :: "byte list \<Rightarrow> byte list" where
  "pad256 m =
     (let len = length m;
          t = (if len mod 64 < 56 then 56 - len mod 64 else 64 + 56 - len mod 64);
          bits = (word_of_nat (len * 8) :: 64 word)
      in m @ [0x80] @ replicate (t - 1) 0 @
         map (\<lambda>i. ucast (drop_bit (56 - 8 * i) bits)) [0..<8])"

definition Sum256 :: "byte list \<Rightarrow> byte list" where
  "Sum256 m = (let p = pad256 m in concat (map be_bytes (blocks256 (length p div 64) init256 p)))"

text \<open>\<^verbatim>\<open>encoding/hex\<close>: two lower-case digits per byte.\<close>

definition hextable :: string where
  "hextable = ''0123456789abcdef''"

definition EncodeToString :: "byte list \<Rightarrow> string" where
  "EncodeToString src =
     concat (map (\<lambda>v. [hextable ! unat (drop_bit 4 v), hextable ! unat (v AND 0x0f)]) src)"

text \<open>
  \<^verbatim>\<open>strings.ToLower\<close> on the bytes of the string: \<^verbatim>\<open>'A'..'Z'\<close> move by
  \<^verbatim>\<open>'a' - 'A'\<close>, every other byte stays. (On a string with bytes from 0x80 on, Go maps
  the runes through the Unicode tables; no such rune becomes a hexadecimal digit, so the
  comparison below has the same outcome.)
\<close>

definition lower_byte :: "char \<Rightarrow> char" where
  "lower_byte c =
     (let n = (of_char c :: nat) in if 65 \<le> n \<and> n \<le> 90 then char_of (n + 32) else c)"

definition ToLower :: "string \<Rightarrow> string" where
  "ToLower s = map lower_byte s"

subsection \<open>The trust check\<close>

text \<open>
  \<^verbatim>\<open>tls.ConnectionState\<close> and \<^verbatim>\<open>x509.Certificate\<close>, with the fields the closure reads.
\<close>

record certificate =
  Raw :: "byte list"

record connection_state =
  PeerCertificates :: "certificate list"

text \<open>
  A Go function either panics or returns; \<^verbatim>\<open>PeerCertificates[0]\<close> on an empty slice
  is the run-time panic "index out of range". The returned \<^verbatim>\<open>error\<close> is \<open>None\<close> for
  \<^verbatim>\<open>nil\<close>.
\<close>

datatype panic = IndexOutOfRange

definition VerifyConnection :: "string \<Rightarrow> connection_state \<Rightarrow> panic + err option" where
  "VerifyConnection fingerprint cs =
     (case PeerCertificates cs of
        [] \<Rightarrow> Inl IndexOutOfRange
      | c # _ \<Rightarrow>
          (let hstr = EncodeToString (Sum256 (Raw c));
               fingerprintLower = ToLower fingerprint
           in if hstr \<noteq> fingerprintLower
              then Inr (Some (''server fingerprint do not match: expected '' @ fingerprintLower
                              @ '', got '' @ hstr))
              else Inr None))"

text \<open>
  \<^verbatim>\<open>tls.Config\<close> as \<^verbatim>\<open>runInner\<close> fills it, and the rule of \<^verbatim>\<open>crypto/tls\<close> for a client:
  the certificate chain and host name are verified unless \<^verbatim>\<open>InsecureSkipVerify\<close> is set,
  and \<^verbatim>\<open>VerifyConnection\<close> is called after that; a non-nil error of either aborts the
  handshake. \<open>chain_ok\<close> is the outcome of the standard chain validation.
\<close>

record tls_config =
  InsecureSkipVerify :: bool
  VerifyConnection_cb :: "connection_state \<Rightarrow> panic + err option"

definition handshake_verify :: "tls_config \<Rightarrow> bool \<Rightarrow> connection_state \<Rightarrow> panic + err option" where
  "handshake_verify cfg chain_ok cs =
     (if \<not> InsecureSkipVerify cfg \<and> \<not> chain_ok
      then Inr (Some ''x509: certificate signed by unknown authority'')
      else VerifyConnection_cb cfg cs)"



subsection \<open>The source, its collaborators and what they observe\<close>

text \<open>
  \<^verbatim>\<open>logger.Level\<close>, \<^verbatim>\<open>gortsplib.StreamType\<close> and \<^verbatim>\<open>gortsplib.ClientProtocol\<close> are
  enumerations of packages that the file imports.
\<close>

datatype level = Debug | Info | Warn

datatype stream_type = StreamTypeRTP | StreamTypeRTCP

datatype client_protocol = ClientProtocolUDP | ClientProtocolMulticast | ClientProtocolTCP

type_synonym track = string

text \<open>
  The configuration fields of \<^verbatim>\<open>rtspSource\<close>. Durations are nanoseconds
  (\<^verbatim>\<open>time.Duration\<close>). The fields \<^verbatim>\<open>wg\<close>, \<^verbatim>\<open>stats\<close>, \<^verbatim>\<open>parent\<close> and \<^verbatim>\<open>ctx\<close> point at
  shared objects; these live in the record \<open>world\<close> below.
\<close>

record rtspSource =
  ur :: string
  proto :: "client_protocol option"
  anyPortEnable :: bool
  fingerprint :: string
  readTimeout :: int
  writeTimeout :: int
  readBufferCount :: int
  readBufferSize :: int

definition rtspSourceRetryPause :: int where
  "rtspSourceRetryPause = 5 * 1000000000"

text \<open>
  \<^verbatim>\<open>client.DialReadContext\<close> returns \<^verbatim>\<open>(conn, err)\<close>; \<^verbatim>\<open>err != nil\<close> is \<open>DialErr\<close>.
  Of a connection the source reads \<^verbatim>\<open>conn.Tracks()\<close>.
\<close>

record client_conn =
  Tracks :: "track list"

datatype dial_outcome = DialErr err | DialConn client_conn

text \<open>
  Everything the source does that another party can observe, in the order in which it
  happens: the calls on the parent (\<^verbatim>\<open>Log\<close>, \<^verbatim>\<open>OnSourceExternalSetReady\<close>,
  \<^verbatim>\<open>OnSourceExternalSetNotReady\<close>, \<^verbatim>\<open>OnSourceFrame\<close>), the goroutines it starts and
  their returns, the channel receives that \<^verbatim>\<open>select\<close> and \<^verbatim>\<open><-\<close> perform, the
  cancellation of the inner context and the close of the connection.
  \<^item> \<open>DialReturn r\<close>: \<^verbatim>\<open>DialReadContext\<close> has returned \<open>r\<close> and the deferred
    \<^verbatim>\<open>close(dialDone)\<close> has run: the dial goroutine is over.
  \<^item> \<open>ReadReturn e\<close>: \<^verbatim>\<open>ReadFrames\<close> has returned \<open>e\<close> and the goroutine offers it on
    \<^verbatim>\<open>readErr\<close>; \<open>RecvReadErr e\<close> is the receive that lets the goroutine end.
\<close>

datatype event =
    Log level string "string list"
  | OnSourceExternalSetReady "track list"
  | OnSourceExternalSetNotReady
  | OnSourceFrame int stream_type "byte list"
  | GoDial
  | DialReturn dial_outcome
  | RecvDialDone
  | RecvCtxDone
  | InnerCtxCancel
  | GoRead
  | ReadReturn err
  | RecvReadErr err
  | ConnClose
  | TimeAfter int
  | RecvTimer

text \<open>\<^verbatim>\<open>s.log\<close> prefixes the format and hands it to the parent.\<close>

definition log :: "level \<Rightarrow> string \<Rightarrow> string list \<Rightarrow> event" where
  "log lvl format args = Log lvl (''[rtsp source] '' @ format) args"

text \<open>
  What the transport library does inside a goroutine of the source is given from outside.
  The client holds the closures \<^verbatim>\<open>OnRequest\<close> and \<^verbatim>\<open>OnResponse\<close> of \<^verbatim>\<open>runInner\<close>
  and can call them whenever it exchanges a message; \<^verbatim>\<open>ReadFrames\<close> is also given the
  frame callback, which hands the frame to the parent at once.
\<close>

datatype client_callback =
    OnRequest string
  | OnResponse string

datatype read_callback =
    Client client_callback
  | OnFrame int stream_type "byte list"

fun call :: "client_callback \<Rightarrow> event" where
  "call (OnRequest req) = log Debug ''c->s %v'' [req]"
| "call (OnResponse res) = log Debug ''s->c %v'' [res]"

fun read_call :: "read_callback \<Rightarrow> event" where
  "read_call (Client cb) = call cb"
| "read_call (OnFrame trackID streamType payload) = OnSourceFrame trackID streamType payload"

text \<open>
  A \<^verbatim>\<open>select\<close> takes one branch that can proceed. Which one, and how far the
  goroutine has come when the main goroutine moves, is decided by the scheduler, the
  network and whoever cancels \<^verbatim>\<open>ctx\<close>: these decisions are the input \<open>attempt\<close> of
  one \<^verbatim>\<open>runInner\<close>. In the \<^verbatim>\<open>ctx.Done()\<close> branches the main goroutine performs two
  steps while the other goroutine is still running; \<open>CtxDone i j\<close> says that \<open>i\<close>
  steps of the goroutine come before the first of them and \<open>j\<close> more before the second.
  The transport library is taken to return from \<^verbatim>\<open>DialReadContext\<close> and from
  \<^verbatim>\<open>ReadFrames\<close>, at the latest after the cancellation or the close: the steps of a
  goroutine are a finite list that ends with its return.
\<close>

datatype race = CtxDone nat nat | WorkDone

datatype pause_race = TimerFirst | PauseCtxDone

record attempt =
  dial_calls :: "client_callback list"
  dial_result :: dial_outcome
  dial_select :: race
  read_calls :: "read_callback list"
  read_result :: err
  read_select :: race
  pause_select :: pause_race

definition weave :: "nat \<Rightarrow> nat \<Rightarrow> event list \<Rightarrow> event \<Rightarrow> event \<Rightarrow> event list" where
  "weave i j g m1 m2 = take i g @ [m1] @ take j (drop i g) @ [m2] @ drop (i + j) g"

text \<open>The two goroutines of an attempt, as the steps they take.\<close>

definition dial_goroutine :: "attempt \<Rightarrow> event list" where
  "dial_goroutine a = map call (dial_calls a) @ [DialReturn (dial_result a)]"

definition read_goroutine :: "attempt \<Rightarrow> event list" where
  "read_goroutine a = map read_call (read_calls a) @ [ReadReturn (read_result a)]"

text \<open>
  \<^verbatim>\<open>runInner\<close>: the events of one attempt and the returned \<^verbatim>\<open>bool\<close>. The deferred
  \<^verbatim>\<open>OnSourceExternalSetNotReady\<close> is registered after the ready call, so it runs at
  both returns of the read phase and at none before.
\<close>

definition read_phase :: "attempt \<Rightarrow> event list \<times> bool" where
  "read_phase a =
     (case read_select a of
        CtxDone i j \<Rightarrow>
          (weave i j (read_goroutine a) RecvCtxDone ConnClose @ [RecvReadErr (read_result a)],
           False)
      | WorkDone \<Rightarrow>
          (read_goroutine a @
             [RecvReadErr (read_result a), log Info ''ERR: %s'' [read_result a], ConnClose],
           True))"

definition runInner :: "rtspSource \<Rightarrow> attempt \<Rightarrow> event list \<times> bool" where
  "runInner s a =
     (let start = [log Debug ''connecting'' [], GoDial] in
      case dial_select a of
        CtxDone i j \<Rightarrow>
          (start @ weave i j (dial_goroutine a) RecvCtxDone InnerCtxCancel @ [RecvDialDone],
           False)
      | WorkDone \<Rightarrow>
          (let dialled = start @ dial_goroutine a @ [RecvDialDone, InnerCtxCancel] in
           case dial_result a of
             DialErr e \<Rightarrow> (dialled @ [log Info ''ERR: %s'' [e]], True)
           | DialConn conn \<Rightarrow>
               (let (evs, ok) = read_phase a in
                (dialled @ [log Info ''ready'' [], OnSourceExternalSetReady (Tracks conn), GoRead]
                   @ evs @ [OnSourceExternalSetNotReady],
                 ok))))"

text \<open>
  \<^verbatim>\<open>run\<close>: the loop has no bound, so it is run on the decisions of finitely many
  attempts. The second component says whether the loop was left (\<^verbatim>\<open>break\<close>); it is
  \<open>False\<close> when the decisions given are used up and the loop is about to start the
  next attempt.
\<close>

fun run_loop :: "rtspSource \<Rightarrow> attempt list \<Rightarrow> event list \<times> bool" where
  "run_loop s [] = ([], False)"
| "run_loop s (a # as) =
     (let (evs, ok) = runInner s a in
      if \<not> ok then (evs, True)
      else (case pause_select a of
              PauseCtxDone \<Rightarrow> (evs @ [TimeAfter rtspSourceRetryPause, RecvCtxDone], True)
            | TimerFirst \<Rightarrow>
                (let (rest, left) = run_loop s as in
                 (evs @ [TimeAfter rtspSourceRetryPause, RecvTimer] @ rest, left))))"

text \<open>
  The shared objects: the counter \<^verbatim>\<open>stats.CountSourcesRTSP\<close> (an \<^verbatim>\<open>int64\<close> changed by
  \<^verbatim>\<open>atomic.AddInt64\<close>), the counter of the wait group, whether \<^verbatim>\<open>ctx\<close> is cancelled,
  and the events seen so far.
\<close>

record world =
  CountSourcesRTSP :: int64
  wg :: int
  ctx_cancelled :: bool
  events :: "event list"

text \<open>
  \<^verbatim>\<open>run\<close> on the shared objects: after the loop, \<^verbatim>\<open>s.ctxCancel()\<close> and the deferred
  \<^verbatim>\<open>s.wg.Done()\<close>.
\<close>

definition run :: "rtspSource \<Rightarrow> attempt list \<Rightarrow> world \<Rightarrow> world" where
  "run s as w =
     (let (evs, left) = run_loop s as;
          w1 = w\<lparr>events := events w @ evs\<rparr>
      in if left then w1\<lparr>ctx_cancelled := True, wg := wg w1 - 1\<rparr> else w1)"

text \<open>
  \<^verbatim>\<open>newRTSPSource\<close>, up to \<^verbatim>\<open>go s.run()\<close>, which only starts the goroutine, and
  \<^verbatim>\<open>Close\<close>. Of \<^verbatim>\<open>parentCtx\<close> the constructor uses whether it is cancelled: the context
  made by \<^verbatim>\<open>context.WithCancel(parentCtx)\<close> starts in that state.
\<close>

definition newRTSPSource ::
  "bool \<Rightarrow> string \<Rightarrow> client_protocol option \<Rightarrow> bool \<Rightarrow> string \<Rightarrow> int \<Rightarrow> int \<Rightarrow> int \<Rightarrow> int
     \<Rightarrow> world \<Rightarrow> rtspSource \<times> world" where
  "newRTSPSource parentCtx ur' proto' anyPortEnable' fingerprint' readTimeout' writeTimeout'
       readBufferCount' readBufferSize' w =
     (let w0 = w\<lparr>ctx_cancelled := parentCtx\<rparr>;
          s = \<lparr>ur = ur', proto = proto', anyPortEnable = anyPortEnable',
               fingerprint = fingerprint', readTimeout = readTimeout',
               writeTimeout = writeTimeout', readBufferCount = readBufferCount',
               readBufferSize = readBufferSize'\<rparr>;
          w1 = w0\<lparr>CountSourcesRTSP := CountSourcesRTSP w0 + 1\<rparr>;
          w2 = w1\<lparr>events := events w1 @ [log Info ''started'' []]\<rparr>;
          w3 = w2\<lparr>wg := wg w2 + 1\<rparr>
      in (s, w3))"

definition Close :: "rtspSource \<Rightarrow> world \<Rightarrow> world" where
  "Close s w =
     (let w1 = w\<lparr>CountSourcesRTSP := CountSourcesRTSP w - 1\<rparr>;
          w2 = w1\<lparr>events := events w1 @ [log Info ''stopped'' []]\<rparr>
      in w2\<lparr>ctx_cancelled := True\<rparr>)"

text \<open>The TLS configuration that \<^verbatim>\<open>runInner\<close> gives the client.\<close>

definition TLSConfig :: "rtspSource \<Rightarrow> tls_config" where
  "TLSConfig s =
     \<lparr>InsecureSkipVerify = True, VerifyConnection_cb = VerifyConnection (fingerprint s)\<rparr>"

subsection \<open>Reading a trace\<close>

text \<open>The notifications of readiness in a trace, and the frames handed to the parent.\<close>

datatype notification = Ready | NotReady

fun notifications :: "event list \<Rightarrow> notification list" where
  "notifications [] = []"
| "notifications (OnSourceExternalSetReady _ # es) = Ready # notifications es"
| "notifications (OnSourceExternalSetNotReady # es) = NotReady # notifications es"
| "notifications (_ # es) = notifications es"

fun paired :: "notification list \<Rightarrow> bool" where
  "paired [] = True"
| "paired (Ready # NotReady # ns) = paired ns"
| "paired _ = False"

fun frames :: "event list \<Rightarrow> (int \<times> stream_type \<times> byte list) list" where
  "frames [] = []"
| "frames (OnSourceFrame t st p # es) = (t, st, p) # frames es"
| "frames (_ # es) = frames es"

fun delivered :: "read_callback list \<Rightarrow> (int \<times> stream_type \<times> byte list) list" where
  "delivered [] = []"
| "delivered (OnFrame t st p # cs) = (t, st, p) # delivered cs"
| "delivered (_ # cs) = delivered cs"

text \<open>
  A trace is in session order from a state of readiness \<open>r\<close>: ready is announced only
  when not ready, not-ready only when ready, a frame is handed over only when ready, and
  the trace ends not ready.
\<close>

fun session_order :: "bool \<Rightarrow> event list \<Rightarrow> bool" where
  "session_order r [] = (\<not> r)"
| "session_order r (OnSourceExternalSetReady _ # es) = (\<not> r \<and> session_order True es)"
| "session_order r (OnSourceExternalSetNotReady # es) = (r \<and> session_order False es)"
| "session_order r (OnSourceFrame _ _ _ # es) = (r \<and> session_order r es)"
| "session_order r (_ # es) = session_order r es"

text \<open>A line of the log that reports an error: the format \<^verbatim>\<open>"ERR: %s"\<close>.\<close>

fun is_err_log :: "event \<Rightarrow> bool" where
  "is_err_log (Log lvl format args) = (format = ''[rtsp source] ERR: %s'')"
| "is_err_log _ = False"

text \<open>
  In a trace, \<open>x\<close> comes before the first \<open>y\<close>.
\<close>

definition precedes :: "event \<Rightarrow> event \<Rightarrow> event list \<Rightarrow> bool" where
  "precedes x y t = (y \<in> set t \<and> x \<in> set (takeWhile (\<lambda>e. e \<noteq> y) t))"

text \<open>The error that makes an attempt fail: that of the dial, else that of the read.\<close>

definition failure_cause :: "attempt \<Rightarrow> err" where
  "failure_cause a = (case dial_result a of DialErr e \<Rightarrow> e | DialConn conn \<Rightarrow> read_result a)"

text \<open>An attempt reaches the ready call when the dial is taken first and has a connection.\<close>

definition reaches_ready :: "attempt \<Rightarrow> bool" where
  "reaches_ready a =
     (case dial_select a of
        CtxDone i j \<Rightarrow> False
      | WorkDone \<Rightarrow> (case dial_result a of DialErr e \<Rightarrow> False | DialConn conn \<Rightarrow> True))"

subsection \<open>Example runs\<close>

text \<open>
  A source pinned to the digest of the certificate with the bytes \<^verbatim>\<open>abc\<close>, written in
  upper case, and four attempts: a refused dial, a session that ends with a read error, a
  stop during the dial, and a stop during the read.
\<close>

definition example_source :: rtspSource where
  "example_source =
     \<lparr>ur = ''rtsps://camera.local:8322/stream'', proto = None, anyPortEnable = False,
      fingerprint = ''BA7816BF8F01CFEA414140DE5DAE2223B00361A396177A9CB410FF61F20015AD'',
      readTimeout = 10000000000, writeTimeout = 10000000000,
      readBufferCount = 512, readBufferSize = 2048\<rparr>"

definition example_certificate :: certificate where
  "example_certificate = \<lparr>Raw = [0x61, 0x62, 0x63]\<rparr>"

definition example_conn :: client_conn where
  "example_conn = \<lparr>Tracks = [''video'', ''audio'']\<rparr>"

definition dial_refused :: attempt where
  "dial_refused =
     \<lparr>dial_calls = [], dial_result = DialErr ''connection refused'', dial_select = WorkDone,
      read_calls = [], read_result = [], read_select = WorkDone, pause_select = TimerFirst\<rparr>"

definition session_lost :: attempt where
  "session_lost =
     \<lparr>dial_calls = [OnRequest ''DESCRIBE'', OnResponse ''200 OK''],
      dial_result = DialConn example_conn, dial_select = WorkDone,
      read_calls = [OnFrame 0 StreamTypeRTP [0x80, 0x60], Client (OnRequest ''OPTIONS''),
                    OnFrame 1 StreamTypeRTCP [0x81]],
      read_result = ''EOF'', read_select = WorkDone, pause_select = TimerFirst\<rparr>"

definition stopped_while_dialling :: attempt where
  "stopped_while_dialling =
     \<lparr>dial_calls = [OnRequest ''DESCRIBE''], dial_result = DialErr ''context canceled'',
      dial_select = CtxDone 1 0,
      read_calls = [], read_result = [], read_select = WorkDone, pause_select = TimerFirst\<rparr>"

definition stopped_while_reading :: attempt where
  "stopped_while_reading =
     session_lost\<lparr>read_result := ''use of closed network connection'',
                  read_select := CtxDone 1 1\<rparr>"

definition example_world :: world where
  "example_world = \<lparr>CountSourcesRTSP = 0, wg = 0, ctx_cancelled = False, events = []\<rparr>"

section \<open>Auxiliary facts\<close>

subsection \<open>The digest and its hexadecimal form\<close>

lemma length_round256: "length st = 8 \<Longrightarrow> length (round256 st kw) = 8"
  by (cases "(st, kw)" rule: round256.cases) (simp_all add: Let_def)

lemma length_foldl_round256: "length st = 8 \<Longrightarrow> length (foldl round256 st kws) = 8"
  by (induction kws arbitrary: st) (simp_all add: length_round256)

lemma length_block256: "length hs = 8 \<Longrightarrow> length (block256 hs p) = 8"
  by (simp add: block256_def Let_def length_foldl_round256)

lemma length_blocks256: "length hs = 8 \<Longrightarrow> length (blocks256 n hs p) = 8"
  by (induction n arbitrary: hs p) (simp_all add: length_block256)

lemma length_concat_be_bytes: "length (concat (map be_bytes ws)) = 4 * length ws"
  by (induction ws) (simp_all add: be_bytes_def)

lemma length_Sum256: "length (Sum256 m) = 32"
  by (simp add: Sum256_def Let_def length_concat_be_bytes length_blocks256 init256_def)

lemma length_EncodeToString: "length (EncodeToString src) = 2 * length src"
  by (induction src) (simp_all add: EncodeToString_def)

lemma hstr_not_empty: "EncodeToString (Sum256 m) \<noteq> []"
proof -
  have "length (EncodeToString (Sum256 m)) = 64"
    by (simp add: length_EncodeToString length_Sum256)
  then show ?thesis by auto
qed









text \<open>The test vector of FIPS 180-4 for the message \<^verbatim>\<open>abc\<close>.\<close>

lemma Sum256_abc:
  "EncodeToString (Sum256 [0x61, 0x62, 0x63]) =
     ''ba7816bf8f01cfea414140de5dae2223b00361a396177a9cb410ff61f20015ad''"
  by code_simp


lemma handshake_TLSConfig:
  "handshake_verify (TLSConfig s) chain_ok cs = VerifyConnection (fingerprint s) cs"
  by (simp add: handshake_verify_def TLSConfig_def)

subsection \<open>Traces of an attempt\<close>

lemma set_weave: "set (weave i j g m1 m2) = set g \<union> {m1, m2}"
proof -
  have "set (take i g) \<union> set (take j (drop i g)) \<union> set (drop (i + j) g) = set g"
    by (metis append_take_drop_id drop_drop add.commute set_append sup_assoc)
  then show ?thesis by (auto simp: weave_def)
qed

lemma notifications_append:
  "notifications (xs @ ys) = notifications xs @ notifications ys"
  by (induction xs rule: notifications.induct) simp_all

lemma frames_append: "frames (xs @ ys) = frames xs @ frames ys"
  by (induction xs rule: frames.induct) simp_all

lemma notifications_calls: "notifications (map call cs) = []"
proof (induction cs)
  case Nil
  show ?case by simp
next
  case (Cons c cs)
  then show ?case by (cases c) (simp_all add: log_def)
qed

lemma notifications_read_calls: "notifications (map read_call cs) = []"
proof (induction cs)
  case Nil
  show ?case by simp
next
  case (Cons c cs)
  show ?case
  proof (cases c)
    case (Client cb)
    with Cons show ?thesis by (cases cb) (simp_all add: log_def)
  next
    case (OnFrame t st p)
    with Cons show ?thesis by simp
  qed
qed

lemma frames_calls: "frames (map call cs) = []"
proof (induction cs)
  case Nil
  show ?case by simp
next
  case (Cons c cs)
  then show ?case by (cases c) (simp_all add: log_def)
qed

lemma frames_read_calls: "frames (map read_call cs) = delivered cs"
proof (induction cs)
  case Nil
  show ?case by simp
next
  case (Cons c cs)
  show ?case
  proof (cases c)
    case (Client cb)
    with Cons show ?thesis by (cases cb) (simp_all add: log_def)
  next
    case (OnFrame t st p)
    with Cons show ?thesis by simp
  qed
qed

lemma weave_split:
  "take i g @ take j (drop i g) @ drop (i + j) g = g"
  by (metis append_take_drop_id drop_drop add.commute)

lemma notifications_take_drop:
  "notifications g = [] \<Longrightarrow> notifications (take i g) = [] \<and> notifications (drop i g) = []"
  by (metis append_take_drop_id notifications_append append_is_Nil_conv)

lemma notifications_weave:
  assumes "notifications g = []" "notifications [m1] = []" "notifications [m2] = []"
  shows "notifications (weave i j g m1 m2) = []"
  unfolding weave_def notifications_append
  using assms notifications_take_drop [of g] notifications_take_drop [of "drop i g"]
  by simp

lemma frames_weave:
  assumes "frames [m1] = []" "frames [m2] = []"
  shows "frames (weave i j g m1 m2) = frames g"
proof -
  have "frames (weave i j g m1 m2) =
      frames (take i g) @ frames (take j (drop i g)) @ frames (drop (i + j) g)"
    unfolding weave_def frames_append using assms by simp
  also have "\<dots> = frames (take i g @ take j (drop i g) @ drop (i + j) g)"
    by (simp add: frames_append)
  finally show ?thesis by (simp only: weave_split)
qed

lemma notifications_dial_goroutine: "notifications (dial_goroutine a) = []"
  by (simp add: dial_goroutine_def notifications_append notifications_calls)

lemma notifications_read_goroutine: "notifications (read_goroutine a) = []"
  by (simp add: read_goroutine_def notifications_append notifications_read_calls)

lemma frames_dial_goroutine: "frames (dial_goroutine a) = []"
  by (simp add: dial_goroutine_def frames_append frames_calls)

lemma frames_read_goroutine: "frames (read_goroutine a) = delivered (read_calls a)"
  by (simp add: read_goroutine_def frames_append frames_read_calls)

lemma notifications_read_phase: "notifications (fst (read_phase a)) = []"
  by (simp add: read_phase_def notifications_append notifications_weave
      notifications_read_goroutine log_def split: race.split)

lemma frames_read_phase: "frames (fst (read_phase a)) = delivered (read_calls a)"
  by (simp add: read_phase_def frames_append frames_weave frames_read_goroutine log_def
      split: race.split)

lemma notifications_runInner:
  "notifications (fst (runInner s a)) = (if reaches_ready a then [Ready, NotReady] else [])"
  by (simp add: runInner_def reaches_ready_def Let_def notifications_append
      notifications_weave notifications_dial_goroutine notifications_read_phase log_def
      case_prod_beta
      split: race.split dial_outcome.split)

lemma frames_runInner:
  "frames (fst (runInner s a)) = (if reaches_ready a then delivered (read_calls a) else [])"
  by (simp add: runInner_def reaches_ready_def Let_def frames_append
      frames_weave frames_dial_goroutine frames_read_phase log_def
      case_prod_beta
      split: race.split dial_outcome.split)

lemma paired_run_loop: "paired (notifications (fst (run_loop s as)))"
proof (induction as)
  case Nil
  show ?case by simp
next
  case (Cons a as)
  then show ?case
    by (simp add: case_prod_beta notifications_append notifications_runInner
        split: pause_race.split)
qed

lemma last_runInner:
  "reaches_ready a \<Longrightarrow> last (fst (runInner s a)) = OnSourceExternalSetNotReady"
  by (simp add: runInner_def reaches_ready_def Let_def case_prod_beta
      split: race.splits dial_outcome.splits)

lemma so_skip:
  "notifications xs = [] \<Longrightarrow> frames xs = [] \<Longrightarrow>
   session_order r (xs @ ys) = session_order r ys"
  by (induction r xs rule: session_order.induct) simp_all

lemma so_frames:
  "r \<Longrightarrow> notifications xs = [] \<Longrightarrow> session_order r (xs @ ys) = session_order r ys"
  by (induction r xs rule: session_order.induct) simp_all

lemma runInner_ready:
  assumes "dial_select a = WorkDone" "dial_result a = DialConn conn"
  shows "fst (runInner s a) =
     ([log Debug ''connecting'' [], GoDial] @ dial_goroutine a
        @ [RecvDialDone, InnerCtxCancel, log Info ''ready'' []])
     @ [OnSourceExternalSetReady (Tracks conn)]
     @ (GoRead # fst (read_phase a)) @ [OnSourceExternalSetNotReady]"
  using assms by (simp add: runInner_def Let_def case_prod_beta)

lemma so_runInner:
  "session_order False (fst (runInner s a) @ rest) = session_order False rest"
proof (cases "reaches_ready a")
  case False
  then have "notifications (fst (runInner s a)) = []" "frames (fst (runInner s a)) = []"
    by (simp_all add: notifications_runInner frames_runInner)
  then show ?thesis by (rule so_skip)
next
  case True
  then obtain conn where a: "dial_select a = WorkDone" "dial_result a = DialConn conn"
    by (auto simp: reaches_ready_def split: race.splits dial_outcome.splits)
  let ?pre = "[log Debug ''connecting'' [], GoDial] @ dial_goroutine a
        @ [RecvDialDone, InnerCtxCancel, log Info ''ready'' []]"
  let ?mid = "GoRead # fst (read_phase a)"
  have pre: "notifications ?pre = []" "frames ?pre = []"
    by (simp_all add: notifications_append frames_append notifications_dial_goroutine
        frames_dial_goroutine log_def)
  have mid: "notifications ?mid = []"
    by (simp add: notifications_read_phase)
  have "session_order False (fst (runInner s a) @ rest) =
      session_order False (?pre @ (OnSourceExternalSetReady (Tracks conn) # ?mid
         @ OnSourceExternalSetNotReady # rest))"
    by (simp add: runInner_ready [OF a])
  also have "\<dots> = session_order True (?mid @ OnSourceExternalSetNotReady # rest)"
    by (simp only: so_skip [OF pre]) simp
  also have "\<dots> = session_order True (OnSourceExternalSetNotReady # rest)"
    by (rule so_frames [OF _ mid]) simp
  finally show ?thesis by simp
qed

lemma so_run_loop: "session_order False (fst (run_loop s as))"
proof (induction as)
  case Nil
  show ?case by simp
next
  case (Cons a as)
  have "session_order False (fst (runInner s a))"
    using so_runInner [of s a "[]"] by simp
  moreover have "session_order False
      (fst (runInner s a) @ [TimeAfter rtspSourceRetryPause, RecvCtxDone])"
    by (simp add: so_runInner)
  moreover have "session_order False
      (fst (runInner s a) @ TimeAfter rtspSourceRetryPause # RecvTimer # fst (run_loop s as))"
    using Cons by (simp add: so_runInner)
  ultimately show ?case
    by (simp add: case_prod_beta split: pause_race.split)
qed

lemma run_loop_failing:
  "list_all (\<lambda>a. snd (runInner s a) \<and> pause_select a = TimerFirst) bs \<Longrightarrow>
   run_loop s bs =
     (concat (map (\<lambda>a. fst (runInner s a) @ [TimeAfter rtspSourceRetryPause, RecvTimer]) bs),
      False)"
  by (induction bs) (simp_all add: case_prod_beta)

lemma CountSourcesRTSP_run: "CountSourcesRTSP (run s as w) = CountSourcesRTSP w"
  by (simp add: run_def Let_def case_prod_beta)

lemma CountSourcesRTSP_Close: "CountSourcesRTSP (Close s w) = CountSourcesRTSP w - 1"
  by (simp add: Close_def Let_def)

lemma CountSourcesRTSP_new:
  "CountSourcesRTSP (snd (newRTSPSource pc u p ap f rt wt rbc rbs w)) = CountSourcesRTSP w + 1"
  by (simp add: newRTSPSource_def Let_def)

lemma CountSourcesRTSP_Close_pow:
  "CountSourcesRTSP ((Close s ^^ n) w) = CountSourcesRTSP w - of_nat n"
  by (induction n) (simp_all add: CountSourcesRTSP_Close)

lemma takeWhile_upto: "y \<notin> set xs \<Longrightarrow> takeWhile (\<lambda>e. e \<noteq> y) (xs @ y # zs) = xs"
  by (induction xs) auto

lemma precedesI:
  "t = xs @ y # zs \<Longrightarrow> y \<notin> set xs \<Longrightarrow> x \<in> set xs \<Longrightarrow> precedes x y t"
  by (simp add: precedes_def takeWhile_upto)

lemma set_calls: "e \<in> set (map call cs) \<Longrightarrow> \<exists>f args. e = Log Debug f args"
proof -
  assume "e \<in> set (map call cs)"
  then obtain c where "e = call c" by auto
  then show ?thesis by (cases c) (simp_all add: log_def)
qed

lemma set_read_calls:
  "e \<in> set (map read_call cs) \<Longrightarrow>
   (\<exists>f args. e = Log Debug f args) \<or> (\<exists>t st p. e = OnSourceFrame t st p)"
proof -
  assume "e \<in> set (map read_call cs)"
  then obtain c where e: "e = read_call c" by auto
  show ?thesis
  proof (cases c)
    case (Client cb)
    with e show ?thesis by (cases cb) (simp_all add: log_def)
  next
    case (OnFrame t st p)
    with e show ?thesis by simp
  qed
qed

lemma set_dial_goroutine:
  "e \<in> set (dial_goroutine a) \<Longrightarrow>
   (\<exists>f args. e = Log Debug f args) \<or> e = DialReturn (dial_result a)"
  using set_calls [of e "dial_calls a"] by (auto simp: dial_goroutine_def)

lemma set_read_goroutine:
  "e \<in> set (read_goroutine a) \<Longrightarrow>
   (\<exists>f args. e = Log Debug f args) \<or> (\<exists>t st p. e = OnSourceFrame t st p)
   \<or> e = ReadReturn (read_result a)"
  using set_read_calls [of e "read_calls a"] by (auto simp: read_goroutine_def)


lemma run_loop_cancelled: "\<not> snd (runInner s a) \<Longrightarrow> run_loop s (a # as) = (fst (runInner s a), True)"
  by (simp add: case_prod_beta)


lemma runInner_read_cancelled:
  "dial_select a = WorkDone \<Longrightarrow> dial_result a = DialConn conn \<Longrightarrow>
   read_select a = CtxDone i j \<Longrightarrow>
   runInner s a =
     ([log Debug ''connecting'' [], GoDial] @ dial_goroutine a
        @ [RecvDialDone, InnerCtxCancel, log Info ''ready'' [],
           OnSourceExternalSetReady (Tracks conn), GoRead]
        @ weave i j (read_goroutine a) RecvCtxDone ConnClose
        @ [RecvReadErr (read_result a), OnSourceExternalSetNotReady], False)"
  by (simp add: runInner_def read_phase_def Let_def)

lemma read_cancel_order:
  fixes a i j conn
  defines "pre \<equiv> [log Debug ''connecting'' [], GoDial] @ dial_goroutine a
        @ [RecvDialDone, InnerCtxCancel, log Info ''ready'' [],
           OnSourceExternalSetReady (Tracks conn), GoRead]"
  defines "t \<equiv> pre @ weave i j (read_goroutine a) RecvCtxDone ConnClose
        @ [RecvReadErr (read_result a), OnSourceExternalSetNotReady]"
  shows "precedes RecvCtxDone ConnClose t"
    and "precedes ConnClose (RecvReadErr (read_result a)) t"
    and "precedes (ReadReturn (read_result a)) (RecvReadErr (read_result a)) t"
    and "precedes (RecvReadErr (read_result a)) OnSourceExternalSetNotReady t"
proof -
  let ?g = "read_goroutine a"
  let ?e = "read_result a"
  have d: "ConnClose \<notin> set (dial_goroutine a)" "RecvReadErr ?e \<notin> set (dial_goroutine a)"
      "OnSourceExternalSetNotReady \<notin> set (dial_goroutine a)"
    using set_dial_goroutine [of _ a] by blast+
  have g: "ConnClose \<notin> set ?g" "RecvReadErr ?e \<notin> set ?g"
      "OnSourceExternalSetNotReady \<notin> set ?g"
    using set_read_goroutine [of _ a] by blast+
  have ret: "ReadReturn ?e \<in> set ?g"
    by (simp add: read_goroutine_def)
  have p: "ConnClose \<notin> set pre" "RecvReadErr ?e \<notin> set pre"
      "OnSourceExternalSetNotReady \<notin> set pre"
    using d by (simp_all add: pre_def log_def)
  show "precedes RecvCtxDone ConnClose t"
  proof (rule precedesI)
    show "t = (pre @ take i ?g @ [RecvCtxDone] @ take j (drop i ?g)) @ ConnClose
             # (drop (i + j) ?g @ [RecvReadErr ?e, OnSourceExternalSetNotReady])"
      by (simp add: t_def weave_def)
    show "ConnClose \<notin> set (pre @ take i ?g @ [RecvCtxDone] @ take j (drop i ?g))"
      using g(1) p(1) by (auto dest: in_set_takeD in_set_dropD)
    show "RecvCtxDone \<in> set (pre @ take i ?g @ [RecvCtxDone] @ take j (drop i ?g))"
      by simp
  qed
  have t: "t = (pre @ weave i j ?g RecvCtxDone ConnClose) @ RecvReadErr ?e
             # [OnSourceExternalSetNotReady]"
    by (simp add: t_def)
  have notin: "RecvReadErr ?e \<notin> set (pre @ weave i j ?g RecvCtxDone ConnClose)"
    using g(2) p(2) by (simp add: set_weave)
  show "precedes ConnClose (RecvReadErr ?e) t"
    by (rule precedesI [OF t notin]) (simp add: set_weave)
  show "precedes (ReadReturn ?e) (RecvReadErr ?e) t"
    by (rule precedesI [OF t notin]) (simp add: set_weave ret)
  show "precedes (RecvReadErr ?e) OnSourceExternalSetNotReady t"
  proof (rule precedesI)
    show "t = (pre @ weave i j ?g RecvCtxDone ConnClose @ [RecvReadErr ?e])
             @ OnSourceExternalSetNotReady # []"
      by (simp add: t_def)
    show "OnSourceExternalSetNotReady
          \<notin> set (pre @ weave i j ?g RecvCtxDone ConnClose @ [RecvReadErr ?e])"
      using g(3) p(3) by (simp add: set_weave)
    show "RecvReadErr ?e \<in> set (pre @ weave i j ?g RecvCtxDone ConnClose @ [RecvReadErr ?e])"
      by simp
  qed
qed

lemma filter_weave:
  assumes "\<not> P m1" "\<not> P m2"
  shows "filter P (weave i j g m1 m2) = filter P g"
proof -
  have "filter P (weave i j g m1 m2) =
      filter P (take i g @ take j (drop i g) @ drop (i + j) g)"
    using assms by (simp add: weave_def)
  then show ?thesis by (simp only: weave_split)
qed

lemma err_log_calls: "filter is_err_log (map call cs) = []"
proof (induction cs)
  case Nil
  show ?case by simp
next
  case (Cons c cs)
  then show ?case by (cases c) (simp_all add: log_def)
qed

lemma err_log_read_calls: "filter is_err_log (map read_call cs) = []"
proof (induction cs)
  case Nil
  show ?case by simp
next
  case (Cons c cs)
  show ?case
  proof (cases c)
    case (Client cb)
    with Cons show ?thesis by (cases cb) (simp_all add: log_def)
  next
    case (OnFrame t st p)
    with Cons show ?thesis by simp
  qed
qed

lemma err_log_dial_goroutine: "filter is_err_log (dial_goroutine a) = []"
  by (simp add: dial_goroutine_def err_log_calls)

lemma err_log_read_goroutine: "filter is_err_log (read_goroutine a) = []"
  by (simp add: read_goroutine_def err_log_read_calls)

lemma err_log_runInner:
  "filter is_err_log (fst (runInner s a)) =
     (if snd (runInner s a) then [Log Info ''[rtsp source] ERR: %s'' [failure_cause a]] else [])"
  by (simp add: runInner_def read_phase_def failure_cause_def Let_def filter_weave
      err_log_dial_goroutine err_log_read_goroutine log_def
      split: race.split dial_outcome.split)

lemma snd_runInner:
  "snd (runInner s a) =
     (dial_select a = WorkDone \<and> (reaches_ready a \<longrightarrow> read_select a = WorkDone))"
  by (simp add: runInner_def read_phase_def reaches_ready_def Let_def
      split: race.split dial_outcome.split)

lemma RecvCtxDone_runInner:
  "\<not> snd (runInner s a) \<Longrightarrow> RecvCtxDone \<in> set (fst (runInner s a))"
  by (simp add: runInner_def read_phase_def Let_def set_weave
      split: race.splits dial_outcome.splits)

lemma run_loop_left: "snd (run_loop s as) \<Longrightarrow> RecvCtxDone \<in> set (fst (run_loop s as))"
proof (induction as)
  case Nil
  then show ?case by simp
next
  case (Cons a as)
  then show ?case
    using RecvCtxDone_runInner [of s a]
    by (auto simp: case_prod_beta split: if_splits pause_race.splits)
qed

lemmas examples = example_source_def example_certificate_def example_conn_def dial_refused_def session_lost_def
  stopped_while_dialling_def stopped_while_reading_def example_world_def

lemmas unfold_attempt = runInner_def read_phase_def weave_def dial_goroutine_def
  read_goroutine_def reaches_ready_def log_def Let_def

lemma run_left:
  "snd (run_loop s as) \<Longrightarrow>
   run s as w = w\<lparr>events := events w @ fst (run_loop s as), ctx_cancelled := True, wg := wg w - 1\<rparr>"
  by (simp add: run_def Let_def case_prod_beta)

section \<open>The claims\<close>

subsection \<open>Readiness notifications\<close>

text \<open>
  C1. The ready and not-ready notifications to the parent alternate, starting with ready.
  One \<^verbatim>\<open>runInner\<close> emits either nothing or exactly ready followed by not-ready, the
  second if and only if it reached the ready call; the not-ready call is then the last
  thing the attempt does, so it comes before the pause, the next attempt and the return
  of \<^verbatim>\<open>run\<close>. Over any sequence of attempts the notifications are a sequence of such
  pairs.
\<close>

theorem ready_notready_alternate:
  "notifications (fst (runInner s a)) = (if reaches_ready a then [Ready, NotReady] else [])
   \<and> (reaches_ready a \<longrightarrow> last (fst (runInner s a)) = OnSourceExternalSetNotReady)
   \<and> paired (notifications (fst (run_loop s as)))"
  by (simp add: notifications_runInner last_runInner paired_run_loop)

theorem ready_notready_alternate_witness:
  "reaches_ready session_lost
   \<and> notifications (fst (runInner example_source session_lost)) = [Ready, NotReady]
   \<and> last (fst (runInner example_source session_lost)) = OnSourceExternalSetNotReady
   \<and> notifications (fst (run_loop example_source [dial_refused, session_lost, stopped_while_reading]))
       = [Ready, NotReady, Ready, NotReady]"
  using ready_notready_alternate [of example_source session_lost "[dial_refused, session_lost, stopped_while_reading]"]
  by (simp add: examples unfold_attempt rtspSourceRetryPause_def)

subsection \<open>The trust check\<close>

text \<open>
  C2. With the empty string as configured fingerprint the pinning is not switched off and
  nothing falls back to the validation of the certificate chain: \<^verbatim>\<open>InsecureSkipVerify\<close>
  is set whatever the fingerprint is, and \<^verbatim>\<open>VerifyConnection\<close> compares the 64 digits of
  the digest with the empty string. So no peer certificate is accepted, whether its chain
  is valid or not.
\<close>

theorem empty_fingerprint_rejects_all:
  "handshake_verify (TLSConfig (s\<lparr>fingerprint := ''''\<rparr>)) chain_ok cs \<noteq> Inr None"
  using hstr_not_empty
  by (simp add: handshake_TLSConfig VerifyConnection_def Let_def ToLower_def split: list.split)

text \<open>
  The chain of the example certificate is taken to be valid, the configured fingerprint is
  empty: the handshake is refused with the mismatch error.
\<close>

theorem empty_fingerprint_counterexample:
  "handshake_verify
     (TLSConfig (example_source\<lparr>fingerprint := ''''\<rparr>))
     True \<lparr>PeerCertificates = [example_certificate]\<rparr>
   = Inr (Some ''server fingerprint do not match: expected , got ba7816bf8f01cfea414140de5dae2223b00361a396177a9cb410ff61f20015ad'')"
  by (simp add: handshake_TLSConfig VerifyConnection_def Let_def ToLower_def Sum256_abc
      example_certificate_def)



text \<open>
  C10. The closure reads \<^verbatim>\<open>cs.PeerCertificates[0]\<close> without a check of the length: it
  panics with an index out of range exactly when the connection state holds no peer
  certificate, and returns (an error or \<^verbatim>\<open>nil\<close>) whenever there is at least one.
\<close>

theorem VerifyConnection_index_panic:
  "(VerifyConnection fp cs = Inl IndexOutOfRange) = (PeerCertificates cs = [])"
  by (simp add: VerifyConnection_def Let_def split: list.split)

theorem VerifyConnection_index_panic_witness:
  "VerifyConnection (fingerprint example_source) \<lparr>PeerCertificates = []\<rparr>
     = Inl IndexOutOfRange"
  using VerifyConnection_index_panic [of "fingerprint example_source" "\<lparr>PeerCertificates = []\<rparr>"]
  by simp

subsection \<open>The supervisor loop\<close>

text \<open>
  C4. After an attempt that returns \<^verbatim>\<open>true\<close> (failed), \<^verbatim>\<open>run\<close> arms a timer of
  \<^verbatim>\<open>rtspSourceRetryPause\<close>, 5 seconds, and waits for it or for \<^verbatim>\<open>ctx.Done()\<close>, whichever
  \<^verbatim>\<open>select\<close> takes first. If it is \<^verbatim>\<open>ctx.Done()\<close>, the loop is left at once, whatever
  would have come next; if it is the timer, the loop goes on with the next attempt. There
  is no bound on the number of attempts: on any number of attempts that fail and whose
  pause runs out, the loop makes them all and is not left.
\<close>

theorem cooldown_after_failure:
  "(snd (runInner s a) \<longrightarrow>
      run_loop s (a # as) =
        (case pause_select a of
           PauseCtxDone \<Rightarrow> (fst (runInner s a) @ [TimeAfter 5000000000, RecvCtxDone], True)
         | TimerFirst \<Rightarrow>
             (fst (runInner s a) @ [TimeAfter 5000000000, RecvTimer] @ fst (run_loop s as),
              snd (run_loop s as))))
   \<and> (list_all (\<lambda>a. snd (runInner s a) \<and> pause_select a = TimerFirst) bs \<longrightarrow>
        run_loop s bs =
          (concat (map (\<lambda>a. fst (runInner s a) @ [TimeAfter 5000000000, RecvTimer]) bs),
           False))"
  using run_loop_failing [of s bs]
  by (simp add: case_prod_beta rtspSourceRetryPause_def split: pause_race.split)

theorem cooldown_after_failure_witness:
  "snd (runInner example_source dial_refused)
   \<and> run_loop example_source [dial_refused\<lparr>pause_select := PauseCtxDone\<rparr>, session_lost] =
       ([Log Debug ''[rtsp source] connecting'' [], GoDial,
         DialReturn (DialErr ''connection refused''), RecvDialDone, InnerCtxCancel,
         Log Info ''[rtsp source] ERR: %s'' [''connection refused''],
         TimeAfter 5000000000, RecvCtxDone], True)
   \<and> list_all (\<lambda>a. snd (runInner example_source a) \<and> pause_select a = TimerFirst)
        [dial_refused, session_lost]
   \<and> \<not> snd (run_loop example_source [dial_refused, session_lost])"
  using cooldown_after_failure [of example_source "dial_refused\<lparr>pause_select := PauseCtxDone\<rparr>" "[session_lost]"
      "[dial_refused, session_lost]"]
  by (simp add: examples unfold_attempt)



text \<open>
  C6. When the \<^verbatim>\<open>select\<close> of the read phase takes \<^verbatim>\<open>ctx.Done()\<close>, the attempt closes
  the connection, then receives from \<^verbatim>\<open>readErr\<close>, on which the read goroutine sends only
  after \<^verbatim>\<open>ReadFrames\<close> has returned, and only then returns \<^verbatim>\<open>false\<close>, the deferred
  not-ready call being its last step. \<^verbatim>\<open>run\<close> then leaves the loop, cancels \<^verbatim>\<open>ctx\<close> and
  releases the wait group.
\<close>

theorem cancel_during_read:
  assumes "dial_select a = WorkDone" and "dial_result a = DialConn conn"
    and "read_select a = CtxDone i j"
  shows "runInner s a =
       ([log Debug ''connecting'' [], GoDial] @ dial_goroutine a
          @ [RecvDialDone, InnerCtxCancel, log Info ''ready'' [],
             OnSourceExternalSetReady (Tracks conn), GoRead]
          @ weave i j (read_goroutine a) RecvCtxDone ConnClose
          @ [RecvReadErr (read_result a), OnSourceExternalSetNotReady], False)
     \<and> precedes RecvCtxDone ConnClose (fst (runInner s a))
     \<and> precedes ConnClose (RecvReadErr (read_result a)) (fst (runInner s a))
     \<and> precedes (ReadReturn (read_result a)) (RecvReadErr (read_result a)) (fst (runInner s a))
     \<and> precedes (RecvReadErr (read_result a)) OnSourceExternalSetNotReady (fst (runInner s a))
     \<and> run_loop s (a # as) = (fst (runInner s a), True)
     \<and> run s (a # as) w =
         w\<lparr>events := events w @ fst (runInner s a), ctx_cancelled := True, wg := wg w - 1\<rparr>"
proof -
  note r = runInner_read_cancelled [OF assms, of s]
  have l: "run_loop s (a # as) = (fst (runInner s a), True)"
    by (rule run_loop_cancelled) (simp add: r)
  have w: "run s (a # as) w =
         w\<lparr>events := events w @ fst (run_loop s (a # as)), ctx_cancelled := True,
           wg := wg w - 1\<rparr>"
    by (rule run_left) (simp only: l snd_conv)
  show ?thesis
    using read_cancel_order [where a = a and i = i and j = j and conn = conn] l w
    by (simp add: r)
qed

theorem cancel_during_read_witness:
  "read_select stopped_while_reading = CtxDone 1 1
   \<and> run_loop example_source [stopped_while_reading, session_lost] =
       ([Log Debug ''[rtsp source] connecting'' [], GoDial,
         Log Debug ''[rtsp source] c->s %v'' [''DESCRIBE''],
         Log Debug ''[rtsp source] s->c %v'' [''200 OK''],
         DialReturn (DialConn \<lparr>Tracks = [''video'', ''audio'']\<rparr>), RecvDialDone, InnerCtxCancel,
         Log Info ''[rtsp source] ready'' [],
         OnSourceExternalSetReady [''video'', ''audio''], GoRead,
         OnSourceFrame 0 StreamTypeRTP [0x80, 0x60], RecvCtxDone,
         Log Debug ''[rtsp source] c->s %v'' [''OPTIONS''], ConnClose,
         OnSourceFrame 1 StreamTypeRTCP [0x81],
         ReadReturn ''use of closed network connection'',
         RecvReadErr ''use of closed network connection'',
         OnSourceExternalSetNotReady], True)
   \<and> precedes (ReadReturn ''use of closed network connection'')
        (RecvReadErr ''use of closed network connection'')
        (fst (runInner example_source stopped_while_reading))"
  using cancel_during_read [of stopped_while_reading example_conn 1 1 example_source "[session_lost]"]
  by (simp add: examples unfold_attempt)

text \<open>
  C8. In every trace of \<^verbatim>\<open>run\<close> a frame is handed to the parent only between a ready
  notification and the not-ready notification that follows it, ready is announced only
  when the source is not ready and not-ready only when it is, and the trace ends not
  ready. The frames that one attempt hands over are those that \<^verbatim>\<open>ReadFrames\<close> delivered
  to the callback, each once and in the same order.
\<close>

theorem session_order_of_frames:
  "session_order False (fst (run_loop s as))
   \<and> frames (fst (runInner s a)) = (if reaches_ready a then delivered (read_calls a) else [])"
  by (simp add: so_run_loop frames_runInner)

theorem session_order_of_frames_witness:
  "session_order False (fst (run_loop example_source [session_lost, stopped_while_reading]))
   \<and> frames (fst (runInner example_source session_lost))
       = [(0, StreamTypeRTP, [0x80, 0x60]), (1, StreamTypeRTCP, [0x81])]"
  using session_order_of_frames [of example_source "[session_lost, stopped_while_reading]" session_lost]
  by (simp add: examples reaches_ready_def)

text \<open>
  C9. The error lines of an attempt: an attempt that returns \<^verbatim>\<open>false\<close> (cancelled) has
  none; an attempt that returns \<^verbatim>\<open>true\<close> has exactly one, at level \<^verbatim>\<open>Info\<close>, with the
  error of the dial or of the read as its argument. The attempt returns \<^verbatim>\<open>true\<close> exactly
  when the dial was taken first and failed, or gave a connection and the read was taken
  first. After such an attempt \<^verbatim>\<open>run\<close> goes on to the pause; the loop is never left
  without a receive from \<^verbatim>\<open>ctx.Done()\<close>.
\<close>

theorem failures_logged_and_retried:
  "filter is_err_log (fst (runInner s a)) =
     (if snd (runInner s a) then [Log Info ''[rtsp source] ERR: %s'' [failure_cause a]] else [])
   \<and> snd (runInner s a) =
       (dial_select a = WorkDone \<and> (reaches_ready a \<longrightarrow> read_select a = WorkDone))
   \<and> (snd (runInner s a) \<longrightarrow>
        take (Suc (length (fst (runInner s a)))) (fst (run_loop s (a # as))) =
          fst (runInner s a) @ [TimeAfter rtspSourceRetryPause])
   \<and> (snd (run_loop s bs) \<longrightarrow> RecvCtxDone \<in> set (fst (run_loop s bs)))"
proof -
  have "snd (runInner s a) \<longrightarrow>
        take (Suc (length (fst (runInner s a)))) (fst (run_loop s (a # as))) =
          fst (runInner s a) @ [TimeAfter rtspSourceRetryPause]"
    by (simp add: case_prod_beta split: pause_race.split)
  then show ?thesis
    using run_loop_left [of s bs] snd_runInner [of s a] err_log_runInner [of s a] by blast
qed

theorem failures_logged_and_retried_witness:
  "snd (runInner example_source session_lost)
   \<and> filter is_err_log (fst (runInner example_source session_lost))
       = [Log Info ''[rtsp source] ERR: %s'' [''EOF'']]
   \<and> \<not> snd (runInner example_source stopped_while_reading)
   \<and> snd (run_loop example_source [session_lost, stopped_while_dialling])
   \<and> RecvCtxDone \<in> set (fst (run_loop example_source [session_lost, stopped_while_dialling]))"
  using failures_logged_and_retried [of example_source session_lost "[stopped_while_dialling]"
      "[session_lost, stopped_while_dialling]"]
  by (simp add: examples unfold_attempt failure_cause_def)

subsection \<open>The counter of active sources\<close>

text \<open>
  C7. \<^verbatim>\<open>newRTSPSource\<close> adds one to \<^verbatim>\<open>CountSourcesRTSP\<close>, \<^verbatim>\<open>run\<close> leaves it alone, and
  every call of \<^verbatim>\<open>Close\<close> takes one off: a lifetime with one \<^verbatim>\<open>Close\<close> leaves the counter
  where it was, and \<open>n\<close> calls of \<^verbatim>\<open>Close\<close> take \<open>n\<close> off. \<^verbatim>\<open>Close\<close> does not look at
  whether the source is already stopped; only the cancellation of the context is the
  same after the first call.
\<close>

theorem counter_changes_per_call:
  "CountSourcesRTSP (snd (newRTSPSource pc u p ap f rt wt rbc rbs w)) = CountSourcesRTSP w + 1
   \<and> CountSourcesRTSP (run s as w) = CountSourcesRTSP w
   \<and> CountSourcesRTSP (Close s w) = CountSourcesRTSP w - 1
   \<and> CountSourcesRTSP
       (Close (fst (newRTSPSource pc u p ap f rt wt rbc rbs w))
          (run (fst (newRTSPSource pc u p ap f rt wt rbc rbs w)) as
             (snd (newRTSPSource pc u p ap f rt wt rbc rbs w)))) = CountSourcesRTSP w
   \<and> CountSourcesRTSP ((Close s ^^ n) w) = CountSourcesRTSP w - of_nat n
   \<and> ctx_cancelled (Close s w)"
  by (simp add: CountSourcesRTSP_run CountSourcesRTSP_Close CountSourcesRTSP_new
      CountSourcesRTSP_Close_pow) (simp add: Close_def Let_def)

theorem counter_changes_per_call_witness:
  "CountSourcesRTSP
     (Close example_source
        (run example_source [session_lost, stopped_while_reading]
           (snd (newRTSPSource False ''rtsps://camera.local:8322/stream'' None False
                   ''BA7816BF8F01CFEA414140DE5DAE2223B00361A396177A9CB410FF61F20015AD''
                   10000000000 10000000000 512 2048 example_world)))) = 0
   \<and> fst (newRTSPSource False ''rtsps://camera.local:8322/stream'' None False
            ''BA7816BF8F01CFEA414140DE5DAE2223B00361A396177A9CB410FF61F20015AD''
            10000000000 10000000000 512 2048 example_world) = example_source"
  using counter_changes_per_call [where pc = False
      and u = "''rtsps://camera.local:8322/stream''" and p = None
      and ap = False
      and f = "''BA7816BF8F01CFEA414140DE5DAE2223B00361A396177A9CB410FF61F20015AD''"
      and rt = 10000000000 and wt = 10000000000 and rbc = 512 and rbs = 2048
      and w = example_world and s = example_source
      and as = "[session_lost, stopped_while_reading]" and n = 1]
  by (simp add: examples newRTSPSource_def)

text \<open>
  A second \<^verbatim>\<open>Close\<close> on a counter at 1: the first call brings it to 0, the second to -1,
  and the parent is told "stopped" twice.
\<close>

theorem close_twice_counterexample:
  "CountSourcesRTSP (Close example_source (Close example_source
      (example_world\<lparr>CountSourcesRTSP := 1\<rparr>))) = - 1
   \<and> CountSourcesRTSP (Close example_source (example_world\<lparr>CountSourcesRTSP := 1\<rparr>)) = 0
   \<and> events (Close example_source (Close example_source (example_world\<lparr>CountSourcesRTSP := 1\<rparr>)))
       = [Log Info ''[rtsp source] stopped'' [], Log Info ''[rtsp source] stopped'' []]"
  by (simp add: Close_def Let_def example_world_def log_def)

end
